theory Spec2Isabelle
  imports Complex_Main
begin

section \<open>Data\<close>

text \<open>
  The repository is two scripts, \<^verbatim>\<open>app.py\<close> (one Flask route, \<^verbatim>\<open>hello_model\<close>) and
  \<^verbatim>\<open>fake_deploy.py\<close> (a module body). Both are straight-line glue around three
  libraries: xgboost (load a model, predict), numpy (random draws, array arithmetic,
  array printing) and, for the first, Flask.

  The float64 numbers the scripts compute themselves (the draws, the reference value)
  are modelled as \<^typ>\<open>real\<close>: rounding is idealised, and these values stay far from the
  range limits. A one-dimensional numpy array is a list, a two-dimensional one a list of
  rows.
\<close>

type_synonym array = "real list"
type_synonym matrix = "real list list"

text \<open>
  The predictions are float32 values computed from the leaves of the model file, which
  can be of any size, so for them and for what is computed from them the infinities and
  NaN are kept. Rounding of the finite values is idealised here too.
\<close>

datatype ieee = Finite real | PosInf | NegInf | NaN

type_synonym farray = "ieee list"

text \<open>
  Conversion to float32, round to nearest: a magnitude of at least
  \<open>2^128 - 2^103\<close> (the largest float32 plus half a unit in its last place) becomes an
  infinity.
\<close>

definition float32_limit :: real where
  "float32_limit = 2 ^ 128 - 2 ^ 103"

definition to_float32 :: "real \<Rightarrow> ieee" where
  "to_float32 v =
     (if float32_limit \<le> v then PosInf
      else if v \<le> - float32_limit then NegInf
      else Finite v)"

text \<open>Subtraction and squaring as IEEE 754 defines them on the special values.\<close>

fun ieee_sub :: "ieee \<Rightarrow> ieee \<Rightarrow> ieee" where
  "ieee_sub NaN b = NaN"
| "ieee_sub a NaN = NaN"
| "ieee_sub (Finite a) (Finite b) = Finite (a - b)"
| "ieee_sub (Finite a) PosInf = NegInf"
| "ieee_sub (Finite a) NegInf = PosInf"
| "ieee_sub PosInf PosInf = NaN"
| "ieee_sub PosInf b = PosInf"
| "ieee_sub NegInf NegInf = NaN"
| "ieee_sub NegInf b = NegInf"

fun ieee_square :: "ieee \<Rightarrow> ieee" where
  "ieee_square (Finite a) = Finite (a\<^sup>2)"
| "ieee_square PosInf = PosInf"
| "ieee_square NegInf = PosInf"
| "ieee_square NaN = NaN"



text \<open>The exceptions that can leave the two scripts; none of them is caught anywhere.\<close>

datatype error =
    LoadError        \<comment> \<open>\<^verbatim>\<open>load_model\<close>: the file is missing or cannot be parsed\<close>
  | ShapeMismatch    \<comment> \<open>\<^verbatim>\<open>predict\<close>: wrong number of columns\<close>
  | IndexError       \<comment> \<open>\<^verbatim>\<open>x[i]\<close> out of range\<close>
  | BroadcastError   \<comment> \<open>array arithmetic on incompatible shapes\<close>

text \<open>
  The state outside the process that the scripts can touch: the files, by name, and
  what has been written to standard output (one entry per \<^verbatim>\<open>print\<close>).
\<close>

record world =
  files :: "string \<rightharpoonup> string"
  stdout :: "string list"

section \<open>The libraries\<close>

subsection \<open>xgboost\<close>

text \<open>
  Modelled from the spec: the model wrapper of the external library (xgboost's
  \<^verbatim>\<open>XGBRegressor\<close>, not part of the repository). A loaded tree ensemble is taken as
  the number of features it expects and the score its leaves add up to on one row, as
  a real number (the library accumulates in float32; only the conversion of the final
  value is modelled).
\<close>

record booster =
  num_feature :: nat
  margin :: "array \<Rightarrow> real"

text \<open>
  What the code needs of the libraries and cannot be written down here: the parser of
  the model file format (owned by xgboost) and the string representation of an array
  (numpy's). Both are parameters of the model.
\<close>

record library =
  parse_model :: "string \<Rightarrow> booster option"
  array_str :: "farray \<Rightarrow> string"

text \<open>
  Modelled from the spec: \<^verbatim>\<open>model.load_model(fname)\<close> of the external library. It reads
  the file and fails when the file is missing or unreadable; it writes nothing.
\<close>

definition load_model :: "library \<Rightarrow> world \<Rightarrow> string \<Rightarrow> error + booster" where
  "load_model lib w fname =
     (case files w fname of
        None \<Rightarrow> Inl LoadError
      | Some content \<Rightarrow>
          (case parse_model lib content of
             None \<Rightarrow> Inl LoadError
           | Some m \<Rightarrow> Inr m))"

text \<open>
  Modelled from the spec: \<^verbatim>\<open>model.predict(X)\<close> of the external library, for a
  single-output regressor. One float32 scalar per row, the model's score on that row; a
  row of any length other than the model's feature count fails with a shape-mismatch
  error.
\<close>

definition predict :: "booster \<Rightarrow> matrix \<Rightarrow> error + farray" where
  "predict m X =
     (if list_all (\<lambda>row. length row = num_feature m) X
      then Inr (map (\<lambda>row. to_float32 (margin m row)) X)
      else Inl ShapeMismatch)"

subsection \<open>numpy\<close>

text \<open>
  Modelled from the spec: the random-number source (numpy's \<^verbatim>\<open>Generator\<close>).
  \<^verbatim>\<open>default_rng()\<close> seeds a fresh generator from the operating system, so the generator
  is an input of each run. It is taken as the variates it is going to hand out: the
  \<open>i\<close>-th one as a double in \<open>[0,1)\<close> or as a standard normal value, and the number
  handed out so far.
\<close>

record generator =
  doubles :: "nat \<Rightarrow> real"
  gauss :: "nat \<Rightarrow> real"
  used :: nat

text \<open>The contract of the generator's doubles.\<close>

definition unit_doubles :: "generator \<Rightarrow> bool" where
  "unit_doubles g = (\<forall>i. 0 \<le> doubles g i \<and> doubles g i < 1)"

text \<open>
  Modelled from the spec: the uniform draws of the random-number source,
  \<^verbatim>\<open>rng.uniform(low, high, size)\<close>: \<open>low + (high - low) * u\<close> for each double \<open>u\<close>;
  the code leaves \<open>low = 0\<close> and \<open>high = 1\<close> at their defaults. With a shape \<open>(rows, cols)\<close>
  the array is filled row by row.
\<close>

definition uniform :: "real \<Rightarrow> real \<Rightarrow> nat \<Rightarrow> generator \<Rightarrow> array \<times> generator" where
  "uniform low high n g =
     (map (\<lambda>i. low + (high - low) * doubles g (used g + i)) [0..<n],
      g\<lparr>used := used g + n\<rparr>)"

definition uniform2 :: "real \<Rightarrow> real \<Rightarrow> nat \<times> nat \<Rightarrow> generator \<Rightarrow> matrix \<times> generator" where
  "uniform2 low high shape g =
     (case shape of (rows, cols) \<Rightarrow>
        (map (\<lambda>r. map (\<lambda>c. low + (high - low) * doubles g (used g + r * cols + c)) [0..<cols])
             [0..<rows],
         g\<lparr>used := used g + rows * cols\<rparr>))"

text \<open>
  Modelled from the spec: the normal draws of the random-number source,
  \<^verbatim>\<open>rng.normal(loc, scale, size)\<close>; the code leaves \<open>loc = 0\<close> and \<open>scale = 1\<close>.
\<close>

definition normal :: "real \<Rightarrow> real \<Rightarrow> nat \<Rightarrow> generator \<Rightarrow> array \<times> generator" where
  "normal loc scale n g =
     (map (\<lambda>i. loc + scale * gauss g (used g + i)) [0..<n],
      g\<lparr>used := used g + n\<rparr>)"

text \<open>\<^verbatim>\<open>x[i]\<close> on a one-dimensional array, for \<open>i \<ge> 0\<close>.\<close>

definition getitem :: "array \<Rightarrow> nat \<Rightarrow> error + real" where
  "getitem x i = (if i < length x then Inr (x ! i) else Inl IndexError)"

text \<open>
  An arithmetic operator between two one-dimensional arrays: elementwise on equal
  lengths, an array of length one is stretched, anything else is an error.
\<close>

definition broadcast :: "('a \<Rightarrow> 'b \<Rightarrow> 'c) \<Rightarrow> 'a list \<Rightarrow> 'b list \<Rightarrow> error + 'c list" where
  "broadcast f a b =
     (if length a = length b then Inr (map2 f a b)
      else if length a = 1 then Inr (map (f (hd a)) b)
      else if length b = 1 then Inr (map (\<lambda>v. f v (hd b)) a)
      else Inl BroadcastError)"

section \<open>app.py\<close>

text \<open>
  Line 18: \<^verbatim>\<open>true = 2*np.sin(pi*x[0]*x[1]) + (2*x[2] - 1)**2 + 2*x[3] + x[4]\<close>,
  a scalar.
\<close>

definition true_scalar :: "array \<Rightarrow> error + real" where
  "true_scalar x =
     (case getitem x 0 of Inl e \<Rightarrow> Inl e | Inr x0 \<Rightarrow>
     (case getitem x 1 of Inl e \<Rightarrow> Inl e | Inr x1 \<Rightarrow>
     (case getitem x 2 of Inl e \<Rightarrow> Inl e | Inr x2 \<Rightarrow>
     (case getitem x 3 of Inl e \<Rightarrow> Inl e | Inr x3 \<Rightarrow>
     (case getitem x 4 of Inl e \<Rightarrow> Inl e | Inr x4 \<Rightarrow>
        Inr (2 * sin (pi * x0 * x1) + (2 * x2 - 1)\<^sup>2 + 2 * x3 + x4))))))"

text \<open>
  Line 19: \<^verbatim>\<open>true = 5*true + 0.1*rng.normal(size=1)\<close>. The scalar is added to each
  component of the scaled noise array, so the result is an array as long as the noise.
\<close>

definition true_noisy :: "real \<Rightarrow> array \<Rightarrow> array" where
  "true_noisy t noise = map (\<lambda>v. 5 * t + v) (map (\<lambda>v. 0.1 * v) noise)"

text \<open>
  Lines 18 and 19 together: the synthetic reference value, as a function of the feature
  vector and of the array that \<^verbatim>\<open>rng.normal(size=1)\<close> returned.
\<close>

definition true_value :: "array \<Rightarrow> array \<Rightarrow> error + array" where
  "true_value x noise =
     (case true_scalar x of Inl e \<Rightarrow> Inl e | Inr t \<Rightarrow> Inr (true_noisy t noise))"

text \<open>
  \<^verbatim>\<open>(true-pred)**2\<close> of line 21: the float64 reference value minus the float32 prediction,
  squared.
\<close>

definition squared_error :: "array \<Rightarrow> farray \<Rightarrow> error + farray" where
  "squared_error true pred =
     (case broadcast (\<lambda>a b. ieee_sub (Finite a) b) true pred of
        Inl e \<Rightarrow> Inl e
      | Inr d \<Rightarrow> Inr (map ieee_square d))"

text \<open>The f-string of line 21.\<close>

definition render :: "library \<Rightarrow> farray \<Rightarrow> farray \<Rightarrow> string" where
  "render lib pred err =
     ''Prediction: '' @ array_str lib pred @ ''\<newline> Error: '' @ array_str lib err
       @ ''\<newline> n.b. model suboptimal to save time''"

text \<open>
  What a run leaves behind: the value returned or the exception raised, the world
  afterwards, and the matrices handed to \<^verbatim>\<open>predict\<close>, in order. The last is a record of
  the calls made, kept to state properties of them; the program has no such list.
\<close>

record 'a run =
  outcome :: "error + 'a"
  after :: world
  passed :: "matrix list"

text \<open>
  \<^verbatim>\<open>hello_model\<close>, lines 10 to 21. \<open>rng0\<close> is the generator that \<^verbatim>\<open>default_rng()\<close>
  returns in this request.
\<close>

definition hello_model :: "library \<Rightarrow> world \<Rightarrow> generator \<Rightarrow> string run" where
  "hello_model lib w rng0 =
     (case load_model lib w ''smallmodel.txt'' of
        Inl e \<Rightarrow> \<lparr>outcome = Inl e, after = w, passed = []\<rparr>
      | Inr model \<Rightarrow>
          (case uniform 0 1 20 rng0 of (x, rng1) \<Rightarrow>
             (case predict model [x] of
                Inl e \<Rightarrow> \<lparr>outcome = Inl e, after = w, passed = [[x]]\<rparr>
              | Inr pred \<Rightarrow>
                  (case true_scalar x of
                     Inl e \<Rightarrow> \<lparr>outcome = Inl e, after = w, passed = [[x]]\<rparr>
                   | Inr true18 \<Rightarrow>
                       (case normal 0 1 1 rng1 of (noise, rng2) \<Rightarrow>
                          (case squared_error (true_noisy true18 noise) pred of
                             Inl e \<Rightarrow> \<lparr>outcome = Inl e, after = w, passed = [[x]]\<rparr>
                           | Inr err \<Rightarrow>
                               \<lparr>outcome = Inr (render lib pred err), after = w,
                                passed = [[x]]\<rparr>))))))"

subsection \<open>Flask\<close>

record response =
  status :: nat
  body :: string

text \<open>
  Modelled from the spec: the page of the hosting framework (Flask, not part of the
  repository) for a view that raised. Its text is the framework's and does not
  depend on the view; only that it is fixed matters here.
\<close>

definition server_error_page :: string where
  "server_error_page = ''Internal Server Error''"

text \<open>
  Modelled from the spec: what the hosting framework makes of \<^verbatim>\<open>GET /\<close>, the one route
  that \<^verbatim>\<open>@app.route('/')\<close> registers: the string the view returns is the body of a 200
  response, an exception that leaves the view is a server error.
\<close>

definition get_root :: "library \<Rightarrow> world \<Rightarrow> generator \<Rightarrow> response \<times> world" where
  "get_root lib w rng0 =
     (let r = hello_model lib w rng0
      in (case outcome r of
            Inr text \<Rightarrow> \<lparr>status = 200, body = text\<rparr>
          | Inl e \<Rightarrow> \<lparr>status = 500, body = server_error_page\<rparr>,
          after r))"

text \<open>
  \<^verbatim>\<open>app.run\<close>: the requests are served one after the other, each with the generator
  its own \<^verbatim>\<open>default_rng()\<close> returns, on the world the one before left.
\<close>

fun serve :: "library \<Rightarrow> world \<Rightarrow> generator list \<Rightarrow> response list \<times> world" where
  "serve lib w [] = ([], w)"
| "serve lib w (g # gs) =
     (case get_root lib w g of (resp, w') \<Rightarrow>
        (case serve lib w' gs of (resps, w'') \<Rightarrow> (resp # resps, w'')))"

section \<open>fake\_deploy.py\<close>

text \<open>The module body, lines 4 to 8. \<^verbatim>\<open>print\<close> appends to standard output.\<close>

definition fake_deploy :: "library \<Rightarrow> world \<Rightarrow> generator \<Rightarrow> unit run" where
  "fake_deploy lib w rng =
     (case load_model lib w ''smallmodel.txt'' of
        Inl e \<Rightarrow> \<lparr>outcome = Inl e, after = w, passed = []\<rparr>
      | Inr model \<Rightarrow>
          (case uniform2 0 1 (10, 20) rng of (X_deploy, rng') \<Rightarrow>
             (case predict model X_deploy of
                Inl e \<Rightarrow> \<lparr>outcome = Inl e, after = w, passed = [X_deploy]\<rparr>
              | Inr p \<Rightarrow>
                  \<lparr>outcome = Inr (),
                   after = w\<lparr>stdout := stdout w @ [array_str lib p]\<rparr>,
                   passed = [X_deploy]\<rparr>)))"

text \<open>
  Modelled from the spec: the exit status the process runtime gives the script, zero
  when the module body ran to its end and non-zero when an exception left it.
\<close>

definition exit_status :: "unit run \<Rightarrow> nat" where
  "exit_status r = (case outcome r of Inr _ \<Rightarrow> 0 | Inl _ \<Rightarrow> 1)"

section \<open>Conditions on the model file\<close>

text \<open>
  A valid model file: \<^verbatim>\<open>smallmodel.txt\<close> is there, the library can parse it, and the model
  it holds expects the 20 features that both scripts feed it.
\<close>

definition valid_model_file :: "library \<Rightarrow> world \<Rightarrow> bool" where
  "valid_model_file lib w =
     (case load_model lib w ''smallmodel.txt'' of
        Inl e \<Rightarrow> False
      | Inr m \<Rightarrow> num_feature m = 20)"

text \<open>The model file is missing, or it is there and cannot be read as a model.\<close>

definition model_file_unusable :: "library \<Rightarrow> world \<Rightarrow> bool" where
  "model_file_unusable lib w =
     (case files w ''smallmodel.txt'' of
        None \<Rightarrow> True
      | Some content \<Rightarrow> parse_model lib content = None)"

section \<open>A concrete instance\<close>

text \<open>
  A small library, some worlds and a generator on which the model can be evaluated.
  The library parses two file contents: a 20-feature model that returns the sixth
  component of its row, and a 20-feature model whose two leaves of \<open>3e38\<close> add up to
  more than a float32 holds. It prints an array in brackets, each finite value as its
  integer part followed by a point. Every variate of the generator is \<open>0\<close>.
\<close>

fun digits :: "nat \<Rightarrow> string" where
  "digits n =
     (if n < 10 then [''0123456789'' ! n]
      else digits (n div 10) @ [''0123456789'' ! (n mod 10)])"

declare digits.simps [simp del]

fun show_ieee :: "ieee \<Rightarrow> string" where
  "show_ieee (Finite v) = (if v < 0 then ''-'' else []) @ digits (nat \<lfloor>\<bar>v\<bar>\<rfloor>) @ ''.''"
| "show_ieee PosInf = ''inf''"
| "show_ieee NegInf = ''-inf''"
| "show_ieee NaN = ''nan''"

fun spaced :: "string list \<Rightarrow> string" where
  "spaced [] = []"
| "spaced [s] = s"
| "spaced (s # t # ts) = s @ '' '' @ spaced (t # ts)"

definition show_array :: "farray \<Rightarrow> string" where
  "show_array a = ''['' @ spaced (map show_ieee a) @ '']''"

definition demo_booster :: booster where
  "demo_booster = \<lparr>num_feature = 20, margin = (\<lambda>row. row ! 5)\<rparr>"

definition overflow_booster :: booster where
  "overflow_booster = \<lparr>num_feature = 20, margin = (\<lambda>row. 3 * 10 ^ 38 + 3 * 10 ^ 38)\<rparr>"

definition demo_lib :: library where
  "demo_lib =
     \<lparr>parse_model =
        (\<lambda>content. if content = ''model'' then Some demo_booster
                    else if content = ''huge leaves'' then Some overflow_booster
                    else None),
      array_str = show_array\<rparr>"

definition demo_world :: world where
  "demo_world = \<lparr>files = [''smallmodel.txt'' \<mapsto> ''model''], stdout = []\<rparr>"


definition bare_world :: world where
  "bare_world = \<lparr>files = Map.empty, stdout = []\<rparr>"

definition garbled_world :: world where
  "garbled_world = \<lparr>files = [''smallmodel.txt'' \<mapsto> ''garbage''], stdout = []\<rparr>"

definition demo_rng :: generator where
  "demo_rng = \<lparr>doubles = (\<lambda>i. 0), gauss = (\<lambda>i. 0), used = 0\<rparr>"

section \<open>Facts about the libraries\<close>

lemma length_uniform: "length (fst (uniform low high n g)) = n"
  by (simp add: uniform_def)

lemma uniform_fields:
  "uniform low high n g = (x, g') \<Longrightarrow>
   used g' = used g + n \<and> gauss g' = gauss g \<and> doubles g' = doubles g"
  by (auto simp: uniform_def)

lemma length_uniform2: "length (fst (uniform2 low high (rows, cols) g)) = rows"
  by (simp add: uniform2_def)

lemma row_uniform2:
  "row \<in> set (fst (uniform2 low high (rows, cols) g)) \<Longrightarrow> length row = cols"
  by (auto simp: uniform2_def)

lemma normal_one:
  "normal loc scale (Suc 0) g = ([loc + scale * gauss g (used g)], g\<lparr>used := Suc (used g)\<rparr>)"
  by (simp add: normal_def)

lemma getitem_ok: "i < length x \<Longrightarrow> getitem x i = Inr (x ! i)"
  by (simp add: getitem_def)

lemma predict_row:
  "length x = num_feature m \<Longrightarrow> predict m [x] = Inr [to_float32 (margin m x)]"
  by (simp add: predict_def)

lemma predict_rows:
  "\<forall>row \<in> set X. length row = num_feature m \<Longrightarrow>
   predict m X = Inr (map (\<lambda>row. to_float32 (margin m row)) X)"
  by (simp add: predict_def list_all_iff)


lemma to_float32_zero: "to_float32 0 = Finite 0"
  by (simp add: to_float32_def float32_limit_def)

lemma to_float32_one: "to_float32 1 = Finite 1"
  by (simp add: to_float32_def float32_limit_def)


lemma uniform_nth:
  "i < n \<Longrightarrow> fst (uniform 0 1 n g) ! i = doubles g (used g + i)"
  by (simp add: uniform_def)

lemma uniform2_nth:
  "r < rows \<Longrightarrow> c < cols \<Longrightarrow>
   fst (uniform2 0 1 (rows, cols) g) ! r ! c = doubles g (used g + r * cols + c)"
  by (simp add: uniform2_def)

lemma uniform2_row_length:
  "r < rows \<Longrightarrow> length (fst (uniform2 low high (rows, cols) g) ! r) = cols"
  by (simp add: uniform2_def)

lemma predict_mismatch:
  "row \<in> set X \<Longrightarrow> length row \<noteq> num_feature m \<Longrightarrow> predict m X = Inl ShapeMismatch"
  by (auto simp: predict_def list_all_iff)

lemma valid_model_fileD:
  "valid_model_file lib w \<Longrightarrow>
   \<exists>m. load_model lib w ''smallmodel.txt'' = Inr m \<and> num_feature m = 20"
  by (auto simp: valid_model_file_def split: sum.splits)

lemma model_file_unusableD:
  "model_file_unusable lib w \<Longrightarrow> load_model lib w ''smallmodel.txt'' = Inl LoadError"
  by (auto simp: model_file_unusable_def load_model_def split: option.splits)

lemma demo_load: "load_model demo_lib demo_world ''smallmodel.txt'' = Inr demo_booster"
  by (simp add: load_model_def demo_lib_def demo_world_def)

lemma demo_valid: "valid_model_file demo_lib demo_world"
  by (simp add: valid_model_file_def demo_load demo_booster_def)



lemma demo_uniform: "uniform 0 1 20 demo_rng = (replicate 20 0, demo_rng\<lparr>used := 20\<rparr>)"
  by (simp add: uniform_def demo_rng_def map_replicate_const)

lemma demo_uniform2:
  "fst (uniform2 0 1 (10, 20) demo_rng) = replicate 10 (replicate 20 0)"
  by (simp add: uniform2_def demo_rng_def map_replicate_const)


lemma demo_normal: "normal 0 1 1 (demo_rng\<lparr>used := 20\<rparr>) = ([0], demo_rng\<lparr>used := 21\<rparr>)"
  by (simp add: normal_one demo_rng_def)

lemma bare_unusable: "model_file_unusable lib bare_world"
  by (simp add: model_file_unusable_def bare_world_def)

lemma garbled_unusable: "model_file_unusable demo_lib garbled_world"
  by (simp add: model_file_unusable_def garbled_world_def demo_lib_def)

lemma demo_unit: "unit_doubles demo_rng"
  by (simp add: unit_doubles_def demo_rng_def)

lemma load_model_cong:
  "files w fname = files w' fname \<Longrightarrow> load_model lib w fname = load_model lib w' fname"
  by (simp add: load_model_def)

lemma sin_quarter: "sin (pi * 0.25) = sqrt 2 / 2"
proof -
  have "pi * 0.25 = pi / 4" by simp
  then show ?thesis by (simp only: sin_45)
qed

lemma sqrt2_bounds: "14142 / 10000 < sqrt 2" "sqrt 2 < 14143 / 10000"
proof -
  show "14142 / 10000 < sqrt 2"
    by (rule real_less_rsqrt) (simp add: power2_eq_square)
  show "sqrt 2 < 14143 / 10000"
    by (rule real_less_lsqrt) (simp_all add: power2_eq_square)
qed

section \<open>Facts about the handler and the script\<close>

lemma true_scalar_ok:
  assumes "5 \<le> length x"
  shows "true_scalar x =
           Inr (2 * sin (pi * x ! 0 * x ! 1) + (2 * x ! 2 - 1)\<^sup>2 + 2 * x ! 3 + x ! 4)"
proof -
  have "getitem x 0 = Inr (x ! 0)" "getitem x 1 = Inr (x ! 1)" "getitem x 2 = Inr (x ! 2)"
    "getitem x 3 = Inr (x ! 3)" "getitem x 4 = Inr (x ! 4)"
    using assms by (simp_all only: getitem_ok)
  then show ?thesis
    unfolding true_scalar_def by (simp only: sum.case)
qed

lemma squared_error_single:
  "squared_error [t] [p] = Inr [ieee_square (ieee_sub (Finite t) p)]"
  by (simp add: squared_error_def broadcast_def)

lemma hello_model_load_fails:
  "load_model lib w ''smallmodel.txt'' = Inl e \<Longrightarrow>
   hello_model lib w g = \<lparr>outcome = Inl e, after = w, passed = []\<rparr>"
  by (simp add: hello_model_def)

lemma hello_model_valid:
  assumes "load_model lib w ''smallmodel.txt'' = Inr m" and "num_feature m = 20"
  shows "\<exists>t.
           predict m [fst (uniform 0 1 20 g)]
             = Inr [to_float32 (margin m (fst (uniform 0 1 20 g)))] \<and>
           true_value (fst (uniform 0 1 20 g)) (fst (normal 0 1 1 (snd (uniform 0 1 20 g))))
             = Inr [t] \<and>
           hello_model lib w g =
             \<lparr>outcome = Inr (render lib [to_float32 (margin m (fst (uniform 0 1 20 g)))]
                 [ieee_square (ieee_sub (Finite t)
                    (to_float32 (margin m (fst (uniform 0 1 20 g)))))]),
              after = w, passed = [[fst (uniform 0 1 20 g)]]\<rparr>"
proof -
  obtain x rng1 where u: "uniform 0 1 20 g = (x, rng1)"
    by (cases "uniform 0 1 20 g")
  obtain noise rng2 where n: "normal 0 1 1 rng1 = (noise, rng2)"
    by (cases "normal 0 1 1 rng1")
  have lx: "length x = 20"
    using u length_uniform [of 0 1 20 g] by simp
  obtain v where nz: "noise = [v]"
    using n by (auto simp: normal_one)
  obtain s where ts: "true_scalar x = Inr s"
    using lx by (simp add: true_scalar_ok)
  define t where "t = 5 * s + 0.1 * v"
  have tn: "true_noisy s noise = [t]"
    using nz by (simp add: true_noisy_def t_def)
  have tv: "true_value x noise = Inr [t]"
    using ts tn by (simp add: true_value_def)
  have p: "predict m [x] = Inr [to_float32 (margin m x)]"
    using lx assms(2) by (simp add: predict_row)
  have "hello_model lib w g =
          \<lparr>outcome = Inr (render lib [to_float32 (margin m x)]
             [ieee_square (ieee_sub (Finite t) (to_float32 (margin m x)))]),
           after = w, passed = [[x]]\<rparr>"
    using assms(1) u n ts tn p by (simp add: hello_model_def squared_error_single)
  with p tv show ?thesis
    using u n by auto
qed

lemma hello_model_loaded_passed:
  assumes "load_model lib w ''smallmodel.txt'' = Inr m"
  shows "passed (hello_model lib w g) = [[fst (uniform 0 1 20 g)]]"
  using assms by (simp add: hello_model_def split: sum.splits prod.splits)

lemma hello_model_wrong_shape:
  assumes "load_model lib w ''smallmodel.txt'' = Inr m" and "num_feature m \<noteq> 20"
  shows "outcome (hello_model lib w g) = Inl ShapeMismatch"
proof -
  have "predict m [fst (uniform 0 1 20 g)] = Inl ShapeMismatch"
    using assms(2) by (simp add: predict_def length_uniform)
  then show ?thesis
    using assms(1) by (cases "uniform 0 1 20 g") (simp add: hello_model_def)
qed

lemma hello_model_outcome_cong:
  "load_model lib w ''smallmodel.txt'' = load_model lib w' ''smallmodel.txt'' \<Longrightarrow>
   outcome (hello_model lib w g) = outcome (hello_model lib w' g)"
  by (simp add: hello_model_def split: sum.splits prod.splits)

lemma hello_model_after: "after (hello_model lib w g) = w"
  by (simp add: hello_model_def split: sum.splits prod.splits)

lemma get_root_world: "snd (get_root lib w g) = w"
  by (simp add: get_root_def Let_def hello_model_after)

lemma serve_world: "snd (serve lib w gs) = w"
proof (induction gs)
  case Nil
  show ?case by simp
next
  case (Cons g gs)
  have "snd (get_root lib w g) = w" by (rule get_root_world)
  with Cons.IH show ?case
    by (simp split: prod.splits) (metis snd_conv)
qed

lemma serve_responses: "fst (serve lib w gs) = map (\<lambda>g. fst (get_root lib w g)) gs"
proof (induction gs)
  case Nil
  show ?case by simp
next
  case (Cons g gs)
  obtain resp w' where r: "get_root lib w g = (resp, w')"
    by (cases "get_root lib w g")
  then have "w' = w"
    using get_root_world [of lib w g] by simp
  with r Cons.IH show ?case
    by (cases "serve lib w gs") simp
qed

lemma fake_deploy_load_fails:
  "load_model lib w ''smallmodel.txt'' = Inl e \<Longrightarrow>
   fake_deploy lib w g = \<lparr>outcome = Inl e, after = w, passed = []\<rparr>"
  by (simp add: fake_deploy_def)

lemma fake_deploy_valid:
  assumes "load_model lib w ''smallmodel.txt'' = Inr m" and "num_feature m = 20"
  shows "fake_deploy lib w g =
           \<lparr>outcome = Inr (),
            after = w\<lparr>stdout := stdout w @
              [array_str lib (map (\<lambda>row. to_float32 (margin m row))
                 (fst (uniform2 0 1 (10, 20) g)))]\<rparr>,
            passed = [fst (uniform2 0 1 (10, 20) g)]\<rparr>"
proof -
  obtain X rng' where u: "uniform2 0 1 (10, 20) g = (X, rng')"
    by (cases "uniform2 0 1 (10, 20) g")
  have "\<forall>row \<in> set X. length row = num_feature m"
    using u row_uniform2 [of _ 0 1 10 20 g] assms(2) by simp
  then have "predict m X = Inr (map (\<lambda>row. to_float32 (margin m row)) X)"
    by (rule predict_rows)
  then show ?thesis
    using assms(1) u by (simp add: fake_deploy_def)
qed

lemma fake_deploy_loaded_passed:
  assumes "load_model lib w ''smallmodel.txt'' = Inr m"
  shows "passed (fake_deploy lib w g) = [fst (uniform2 0 1 (10, 20) g)]"
  using assms by (simp add: fake_deploy_def split: sum.splits prod.splits)

lemma fake_deploy_wrong_shape:
  assumes "load_model lib w ''smallmodel.txt'' = Inr m" and "num_feature m \<noteq> 20"
  shows "outcome (fake_deploy lib w g) = Inl ShapeMismatch"
proof -
  let ?X = "fst (uniform2 0 1 (10, 20) g)"
  have "length ?X = 10"
    by (rule length_uniform2)
  then obtain row where "row \<in> set ?X"
    by (cases ?X) auto
  moreover from this have "length row = 20"
    by (rule row_uniform2)
  ultimately have "predict m ?X = Inl ShapeMismatch"
    using assms(2) predict_mismatch [of row ?X m] by simp
  then show ?thesis
    using assms(1) by (cases "uniform2 0 1 (10, 20) g") (simp add: fake_deploy_def)
qed

section \<open>The synthetic reference value\<close>

text \<open>
  Claim C1. In the web handler, \<open>x\<close> is the 20-component draw of line 15 and the noise is
  the single normal draw \<open>n\<close> of line 19 (the variate that follows the 20 of \<open>x\<close>). The
  reference value computed from them is the one-element array holding
  \<open>5 * (2*sin(pi*x0*x1) + (2*x2-1)^2 + 2*x3 + x4) + 0.1*n\<close>.
\<close>

theorem reference_value_formula:
  assumes "uniform 0 1 20 rng0 = (x, rng1)" and "normal 0 1 1 rng1 = (noise, rng2)"
  shows "\<exists>n. noise = [n] \<and> n = gauss rng0 (used rng0 + 20) \<and> length x = 20 \<and>
           true_value x noise =
             Inr [5 * (2 * sin (pi * x ! 0 * x ! 1) + (2 * x ! 2 - 1)\<^sup>2 + 2 * x ! 3 + x ! 4)
                  + 0.1 * n]"
proof -
  have lx: "length x = 20"
    using assms(1) length_uniform [of 0 1 20 rng0] by simp
  have u: "used rng1 = used rng0 + 20" "gauss rng1 = gauss rng0"
    using uniform_fields [OF assms(1)] by simp_all
  have nz: "noise = [gauss rng0 (used rng0 + 20)]"
    using assms(2) u by (simp add: normal_one)
  show ?thesis
    using lx nz by (simp add: true_value_def true_scalar_ok true_noisy_def)
qed

theorem reference_value_formula_witness:
  "true_value (fst (uniform 0 1 20 demo_rng)) (fst (normal 0 1 1 (snd (uniform 0 1 20 demo_rng))))
     = Inr [5]"
  using reference_value_formula [of demo_rng "fst (uniform 0 1 20 demo_rng)"
      "snd (uniform 0 1 20 demo_rng)" "fst (normal 0 1 1 (snd (uniform 0 1 20 demo_rng)))"
      "snd (normal 0 1 1 (snd (uniform 0 1 20 demo_rng)))"]
  by (auto simp: demo_rng_def uniform_def normal_one)

text \<open>
  Claim C3. Without noise the reference value is a function of \<open>x0..x4\<close> alone: for every
  vector whose first five components are \<open>0.5\<close>, whatever the others are, it is
  \<open>5 * (2*sin(pi*0.25) + 0 + 1 + 0.5)\<close>, which is \<open>14.571\<close> up to a thousandth.
\<close>

theorem reference_value_at_half:
  assumes "5 \<le> length x"
    and "x ! 0 = 0.5" and "x ! 1 = 0.5" and "x ! 2 = 0.5" and "x ! 3 = 0.5" and "x ! 4 = 0.5"
  shows "true_value x [0] = Inr [5 * (2 * sin (pi * 0.25) + 0 + 1 + 0.5)] \<and>
         \<bar>5 * (2 * sin (pi * 0.25) + 0 + 1 + 0.5) - 14.571\<bar> < 0.001"
proof
  have "true_scalar x = Inr (2 * sin (pi * 0.5 * 0.5) + (2 * 0.5 - 1)\<^sup>2 + 2 * 0.5 + 0.5)"
    using assms by (simp only: true_scalar_ok)
  moreover have "pi * 0.5 * 0.5 = pi * (0.25::real)" by simp
  ultimately show "true_value x [0] = Inr [5 * (2 * sin (pi * 0.25) + 0 + 1 + 0.5)]"
    by (simp add: true_value_def true_noisy_def)
next
  show "\<bar>5 * (2 * sin (pi * 0.25) + 0 + 1 + 0.5) - 14.571\<bar> < 0.001"
    using sqrt2_bounds by (simp only: sin_quarter) (simp add: abs_less_iff)
qed

theorem reference_value_at_half_witness:
  "true_value (replicate 20 0.5) [0] = Inr [5 * (2 * sin (pi * 0.25) + 0 + 1 + 0.5)] \<and>
   \<bar>5 * (2 * sin (pi * 0.25) + 0 + 1 + 0.5) - 14.571\<bar> < (0.001::real)"
  using reference_value_at_half [of "replicate 20 0.5"] by simp

text \<open>
  Claim C8. The reference value depends on the first five components of the feature
  vector and on the noise only: two 20-component vectors that agree on \<open>x0..x4\<close> give,
  with the same noise, the same reference value. (The prediction may differ: the
  instance that follows the theorem has a model that reads the sixth component.)
\<close>

theorem reference_value_first_five:
  assumes "length x = 20" and "length y = 20" and "\<forall>i<5. x ! i = y ! i"
  shows "true_value x noise = true_value y noise"
proof -
  have "x ! 0 = y ! 0" "x ! 1 = y ! 1" "x ! 2 = y ! 2" "x ! 3 = y ! 3" "x ! 4 = y ! 4"
    using assms(3) by simp_all
  moreover have "5 \<le> length x" "5 \<le> length y"
    using assms(1,2) by simp_all
  ultimately have "true_scalar x = true_scalar y"
    by (simp only: true_scalar_ok)
  then show ?thesis
    by (simp add: true_value_def)
qed

theorem reference_value_first_five_witness:
  "true_value (replicate 20 0) [3] = true_value (replicate 5 0 @ replicate 15 1) [3] \<and>
   predict demo_booster [replicate 20 0] \<noteq> predict demo_booster [replicate 5 0 @ replicate 15 1]"
proof -
  have "\<forall>i<5. replicate 20 (0::real) ! i = (replicate 5 0 @ replicate 15 1) ! i"
    by (simp add: nth_append)
  then have "true_value (replicate 20 0) [3] = true_value (replicate 5 0 @ replicate 15 1) [3]"
    using reference_value_first_five [of "replicate 20 0" "replicate 5 0 @ replicate 15 1" "[3]"]
    by simp
  moreover have "predict demo_booster [replicate 20 0]
      \<noteq> predict demo_booster [replicate 5 0 @ replicate 15 1]"
    by (simp add: predict_def demo_booster_def nth_append to_float32_zero to_float32_one)
  ultimately show ?thesis by simp
qed

section \<open>The response of the web handler\<close>

text \<open>
  Claim C2. With a valid model file, \<^verbatim>\<open>GET /\<close> is answered with status 200 and the body
  \<^verbatim>\<open>Prediction: <pred>\n Error: <err>\n n.b. model suboptimal to save time\<close>, where
  \<open><pred>\<close> is the printed one-element array \<open>[p]\<close> that \<^verbatim>\<open>predict\<close> returned for the drawn
  vector and \<open><err>\<close> is the printed one-element array holding the squared error
  \<open>(t - p)^2\<close>, for the reference value \<open>t\<close> of this request.
\<close>

theorem get_root_valid_model:
  assumes "valid_model_file lib w"
  shows "\<exists>m p t.
           load_model lib w ''smallmodel.txt'' = Inr m \<and>
           predict m [fst (uniform 0 1 20 g)] = Inr [p] \<and>
           true_value (fst (uniform 0 1 20 g)) (fst (normal 0 1 1 (snd (uniform 0 1 20 g))))
             = Inr [t] \<and>
           fst (get_root lib w g) =
             \<lparr>status = 200,
              body = ''Prediction: '' @ array_str lib [p] @ ''\<newline> Error: ''
                       @ array_str lib [ieee_square (ieee_sub (Finite t) p)]
                       @ ''\<newline> n.b. model suboptimal to save time''\<rparr>"
proof -
  obtain m where m: "load_model lib w ''smallmodel.txt'' = Inr m" "num_feature m = 20"
    using valid_model_fileD [OF assms] by blast
  define p where "p = to_float32 (margin m (fst (uniform 0 1 20 g)))"
  obtain t where pt: "predict m [fst (uniform 0 1 20 g)] = Inr [p]"
    "true_value (fst (uniform 0 1 20 g)) (fst (normal 0 1 1 (snd (uniform 0 1 20 g)))) = Inr [t]"
    "hello_model lib w g =
       \<lparr>outcome = Inr (render lib [p] [ieee_square (ieee_sub (Finite t) p)]), after = w,
        passed = [[fst (uniform 0 1 20 g)]]\<rparr>"
    using hello_model_valid [OF m, of g] unfolding p_def by blast
  have "fst (get_root lib w g) =
          \<lparr>status = 200, body = render lib [p] [ieee_square (ieee_sub (Finite t) p)]\<rparr>"
    using pt(3) by (simp add: get_root_def)
  with m(1) pt(1,2) show ?thesis
    unfolding render_def
    by (intro exI [of _ m] exI [of _ p] exI [of _ t]) simp
qed

theorem get_root_valid_model_witness:
  "valid_model_file demo_lib demo_world \<and>
   fst (get_root demo_lib demo_world demo_rng) =
     \<lparr>status = 200,
      body = ''Prediction: [0.]\<newline> Error: [25.]\<newline> n.b. model suboptimal to save time''\<rparr>"
proof -
  have x: "fst (uniform 0 1 20 demo_rng) = replicate 20 0"
    and n: "fst (normal 0 1 1 (snd (uniform 0 1 20 demo_rng))) = [0]"
    by (simp_all only: demo_uniform demo_normal fst_conv snd_conv)
  have tv: "true_value (replicate 20 0) [0] = Inr [5]"
    by (simp add: true_value_def true_scalar_ok true_noisy_def)
  have pr: "predict demo_booster [replicate 20 0] = Inr [Finite 0]"
    by (simp add: predict_def demo_booster_def to_float32_zero)
  obtain m p t where r: "load_model demo_lib demo_world ''smallmodel.txt'' = Inr m"
    "predict m [replicate 20 0] = Inr [p]"
    "true_value (replicate 20 0) [0] = Inr [t]"
    "fst (get_root demo_lib demo_world demo_rng) =
       \<lparr>status = 200,
        body = ''Prediction: '' @ array_str demo_lib [p] @ ''\<newline> Error: ''
                 @ array_str demo_lib [ieee_square (ieee_sub (Finite t) p)]
                 @ ''\<newline> n.b. model suboptimal to save time''\<rparr>"
    using get_root_valid_model [OF demo_valid, of demo_rng] unfolding x n by blast
  have "m = demo_booster" "t = 5"
    using r(1,3) demo_load tv by simp_all
  then have "p = Finite 0"
    using r(2) pr by simp
  with \<open>t = 5\<close> r(4) have "fst (get_root demo_lib demo_world demo_rng) =
     \<lparr>status = 200,
      body = ''Prediction: [0.]\<newline> Error: [25.]\<newline> n.b. model suboptimal to save time''\<rparr>"
    by (simp add: demo_lib_def show_array_def digits.simps)
  with demo_valid show ?thesis by simp
qed



section \<open>The batch check\<close>




section \<open>Feature vectors\<close>

text \<open>
  Claim C5. Once the model is loaded, the web handler draws one sample of 20 components,
  the script one of 10 rows of 20 components, and that sample is what is handed to
  \<^verbatim>\<open>predict\<close>, in the one call each of them makes; the run fails exactly when
  that call fails. The components are the generator's next doubles, each in \<open>[0,1)\<close>
  (given that the generator's doubles are). For a model that expects 20 features, a
  matrix with a row of any other length makes \<^verbatim>\<open>predict\<close> fail with a shape-mismatch
  error.
\<close>

theorem feature_vectors_twenty:
  assumes "unit_doubles g" and "load_model lib w ''smallmodel.txt'' = Inr m"
  shows "passed (hello_model lib w g) = [[fst (uniform 0 1 20 g)]] \<and>
         isl (outcome (hello_model lib w g)) = isl (predict m [fst (uniform 0 1 20 g)]) \<and>
         length (fst (uniform 0 1 20 g)) = 20 \<and>
         (\<forall>i<20. fst (uniform 0 1 20 g) ! i = doubles g (used g + i) \<and>
                  0 \<le> fst (uniform 0 1 20 g) ! i \<and> fst (uniform 0 1 20 g) ! i < 1) \<and>
         passed (fake_deploy lib w g) = [fst (uniform2 0 1 (10, 20) g)] \<and>
         isl (outcome (fake_deploy lib w g)) = isl (predict m (fst (uniform2 0 1 (10, 20) g))) \<and>
         length (fst (uniform2 0 1 (10, 20) g)) = 10 \<and>
         (\<forall>r<10. length (fst (uniform2 0 1 (10, 20) g) ! r) = 20 \<and>
            (\<forall>c<20. fst (uniform2 0 1 (10, 20) g) ! r ! c = doubles g (used g + r * 20 + c) \<and>
                     0 \<le> fst (uniform2 0 1 (10, 20) g) ! r ! c \<and>
                     fst (uniform2 0 1 (10, 20) g) ! r ! c < 1)) \<and>
         (num_feature m = 20 \<and> row \<in> set Y \<and> length row \<noteq> 20
            \<longrightarrow> predict m Y = Inl ShapeMismatch)"
proof (intro conjI)
  show "passed (hello_model lib w g) = [[fst (uniform 0 1 20 g)]]"
    by (rule hello_model_loaded_passed [OF assms(2)])
  show "isl (outcome (hello_model lib w g)) = isl (predict m [fst (uniform 0 1 20 g)])"
  proof (cases "num_feature m = 20")
    case True
    then show ?thesis
      using hello_model_valid [OF assms(2) True, of g] by auto
  next
    case False
    then have "predict m [fst (uniform 0 1 20 g)] = Inl ShapeMismatch"
      by (simp add: predict_def length_uniform)
    then show ?thesis
      using hello_model_wrong_shape [OF assms(2) False, of g] by simp
  qed
  show "length (fst (uniform 0 1 20 g)) = 20"
    by (rule length_uniform)
  show "\<forall>i<20. fst (uniform 0 1 20 g) ! i = doubles g (used g + i) \<and>
                  0 \<le> fst (uniform 0 1 20 g) ! i \<and> fst (uniform 0 1 20 g) ! i < 1"
    using assms(1) by (simp add: uniform_nth unit_doubles_def)
  show "passed (fake_deploy lib w g) = [fst (uniform2 0 1 (10, 20) g)]"
    by (rule fake_deploy_loaded_passed [OF assms(2)])
  show "isl (outcome (fake_deploy lib w g)) = isl (predict m (fst (uniform2 0 1 (10, 20) g)))"
  proof (cases "num_feature m = 20")
    case True
    have "\<forall>row \<in> set (fst (uniform2 0 1 (10, 20) g)). length row = num_feature m"
      using row_uniform2 [of _ 0 1 10 20 g] True by simp
    then have "predict m (fst (uniform2 0 1 (10, 20) g))
        = Inr (map (\<lambda>row. to_float32 (margin m row)) (fst (uniform2 0 1 (10, 20) g)))"
      by (rule predict_rows)
    then show ?thesis
      using fake_deploy_valid [OF assms(2) True, of g] by simp
  next
    case False
    have "length (fst (uniform2 0 1 (10, 20) g)) = 10"
      by (rule length_uniform2)
    then obtain row' where in_X: "row' \<in> set (fst (uniform2 0 1 (10, 20) g))"
      by (cases "fst (uniform2 0 1 (10, 20) g)") auto
    then have "length row' = 20"
      by (rule row_uniform2)
    then have "predict m (fst (uniform2 0 1 (10, 20) g)) = Inl ShapeMismatch"
      using False predict_mismatch [OF in_X, of m] by simp
    then show ?thesis
      using fake_deploy_wrong_shape [OF assms(2) False, of g] by simp
  qed
  show "length (fst (uniform2 0 1 (10, 20) g)) = 10"
    by (rule length_uniform2)
  show "\<forall>r<10. length (fst (uniform2 0 1 (10, 20) g) ! r) = 20 \<and>
            (\<forall>c<20. fst (uniform2 0 1 (10, 20) g) ! r ! c = doubles g (used g + r * 20 + c) \<and>
                     0 \<le> fst (uniform2 0 1 (10, 20) g) ! r ! c \<and>
                     fst (uniform2 0 1 (10, 20) g) ! r ! c < 1)"
    using assms(1) by (simp add: uniform2_nth uniform2_row_length unit_doubles_def)
  show "num_feature m = 20 \<and> row \<in> set Y \<and> length row \<noteq> 20
          \<longrightarrow> predict m Y = Inl ShapeMismatch"
    using predict_mismatch [of row Y m] by simp
qed

theorem feature_vectors_twenty_witness:
  "unit_doubles demo_rng \<and>
   load_model demo_lib demo_world ''smallmodel.txt'' = Inr demo_booster \<and>
   passed (hello_model demo_lib demo_world demo_rng) = [[replicate 20 0]] \<and>
   isl (outcome (hello_model demo_lib demo_world demo_rng)) = False \<and>
   passed (fake_deploy demo_lib demo_world demo_rng) = [replicate 10 (replicate 20 0)] \<and>
   isl (outcome (fake_deploy demo_lib demo_world demo_rng)) = False \<and>
   predict demo_booster [[0, 0, 0]] = Inl ShapeMismatch"
proof -
  note t = feature_vectors_twenty [OF demo_unit demo_load, where row = "[0, 0, 0]"
      and Y = "[[0, 0, 0]]"]
  have nf: "num_feature demo_booster = 20"
    by (simp add: demo_booster_def)
  have x: "fst (uniform 0 1 20 demo_rng) = replicate 20 0"
    by (simp add: demo_uniform)
  have p1: "isl (predict demo_booster [replicate 20 0]) = False"
    by (simp add: predict_def demo_booster_def)
  have p2: "isl (predict demo_booster (replicate 10 (replicate 20 0))) = False"
    by (simp add: predict_def demo_booster_def list_all_iff)
  have "passed (hello_model demo_lib demo_world demo_rng) = [[replicate 20 0]]"
    "isl (outcome (hello_model demo_lib demo_world demo_rng)) = False"
    "passed (fake_deploy demo_lib demo_world demo_rng) = [replicate 10 (replicate 20 0)]"
    "isl (outcome (fake_deploy demo_lib demo_world demo_rng)) = False"
    using t p1 p2 unfolding x demo_uniform2 by simp_all
  moreover have "predict demo_booster [[0, 0, 0]] = Inl ShapeMismatch"
    using t nf by simp
  ultimately show ?thesis
    using demo_unit demo_load by simp
qed

section \<open>A missing or unreadable model file\<close>

text \<open>
  Claim C6. If the model file is missing or unreadable, both entry points fail at the
  load, before any draw or prediction: the web handler raises, which the caller sees as
  a server error whose body is the framework's page and nothing of the handler's; the
  batch script raises, ends with a non-zero exit status and has printed nothing.
\<close>

theorem unusable_model_file_fails:
  assumes "model_file_unusable lib w"
  shows "outcome (hello_model lib w g) = Inl LoadError \<and>
         passed (hello_model lib w g) = [] \<and>
         get_root lib w g = (\<lparr>status = 500, body = server_error_page\<rparr>, w) \<and>
         outcome (fake_deploy lib w g) = Inl LoadError \<and>
         passed (fake_deploy lib w g) = [] \<and>
         exit_status (fake_deploy lib w g) \<noteq> 0 \<and>
         after (fake_deploy lib w g) = w"
  using model_file_unusableD [OF assms]
  by (simp add: hello_model_load_fails fake_deploy_load_fails get_root_def exit_status_def)

theorem unusable_model_file_fails_witness:
  "model_file_unusable demo_lib bare_world \<and>
   get_root demo_lib bare_world demo_rng
     = (\<lparr>status = 500, body = ''Internal Server Error''\<rparr>, bare_world) \<and>
   stdout (after (fake_deploy demo_lib bare_world demo_rng)) = [] \<and>
   exit_status (fake_deploy demo_lib bare_world demo_rng) \<noteq> 0 \<and>
   model_file_unusable demo_lib garbled_world \<and>
   status (fst (get_root demo_lib garbled_world demo_rng)) = 500 \<and>
   stdout (after (fake_deploy demo_lib garbled_world demo_rng)) = [] \<and>
   exit_status (fake_deploy demo_lib garbled_world demo_rng) \<noteq> 0"
  using unusable_model_file_fails [OF bare_unusable, of demo_lib demo_rng] bare_unusable
    unusable_model_file_fails [OF garbled_unusable, of demo_rng] garbled_unusable
  by (simp add: server_error_page_def bare_world_def garbled_world_def)

section \<open>Requests do not see each other\<close>

text \<open>
  Claim C7. Every request loads the model again from \<^verbatim>\<open>smallmodel.txt\<close> and nothing is
  carried from one request to the next: in a sequence of requests each response is the
  one the handler gives on its own, and a response is determined by the contents of the
  model file and the request's own generator, whatever else the world holds.
\<close>

theorem requests_independent:
  "fst (serve lib w gs) = map (\<lambda>g. fst (get_root lib w g)) gs \<and>
   (files w ''smallmodel.txt'' = files w' ''smallmodel.txt''
      \<longrightarrow> fst (get_root lib w g) = fst (get_root lib w' g))"
proof
  show "fst (serve lib w gs) = map (\<lambda>g. fst (get_root lib w g)) gs"
    by (rule serve_responses)
  show "files w ''smallmodel.txt'' = files w' ''smallmodel.txt''
      \<longrightarrow> fst (get_root lib w g) = fst (get_root lib w' g)"
    using hello_model_outcome_cong [OF load_model_cong, of w w' lib g]
    by (simp add: get_root_def Let_def)
qed

theorem requests_independent_witness:
  "files demo_world ''smallmodel.txt''
     = files (demo_world\<lparr>files := (files demo_world)(''notes.txt'' \<mapsto> ''x''),
                         stdout := [''earlier'']\<rparr>) ''smallmodel.txt'' \<and>
   fst (get_root demo_lib demo_world demo_rng)
     = fst (get_root demo_lib
              (demo_world\<lparr>files := (files demo_world)(''notes.txt'' \<mapsto> ''x''),
                          stdout := [''earlier'']\<rparr>) demo_rng) \<and>
   fst (serve demo_lib demo_world [demo_rng, demo_rng])
     = [fst (get_root demo_lib demo_world demo_rng), fst (get_root demo_lib demo_world demo_rng)]"
proof -
  let ?w' = "demo_world\<lparr>files := (files demo_world)(''notes.txt'' \<mapsto> ''x''),
                         stdout := [''earlier'']\<rparr>"
  have same: "files demo_world ''smallmodel.txt'' = files ?w' ''smallmodel.txt''"
    by simp
  note r = requests_independent [of demo_lib demo_world "[demo_rng, demo_rng]" ?w' demo_rng]
  have "fst (get_root demo_lib demo_world demo_rng) = fst (get_root demo_lib ?w' demo_rng)"
    using r same by (simp only:)
  moreover have "fst (serve demo_lib demo_world [demo_rng, demo_rng])
     = [fst (get_root demo_lib demo_world demo_rng), fst (get_root demo_lib demo_world demo_rng)]"
    using r by (simp only: list.map)
  ultimately show ?thesis
    using same by (intro conjI)
qed

section \<open>The handler changes nothing\<close>

text \<open>
  Claim C9. Serving a request has no effect on the world: whether the handler returns or
  raises, the files (the model file among them) and standard output are afterwards what
  they were before, also after any number of requests.
\<close>

theorem handler_leaves_world_unchanged:
  "after (hello_model lib w g) = w \<and> snd (get_root lib w g) = w \<and> snd (serve lib w gs) = w"
  by (simp add: hello_model_after get_root_world serve_world)

end
